theory Spec2Isabelle
  imports Complex_Main "HOL-Library.AList"
begin

section \<open>The fragmentation workflow factory of atomate.qchem\<close>

text \<open>
  The module \<^verbatim>\<open>atomate/qchem/workflows/base/fragmentation.py\<close> holds one function,
  \<^verbatim>\<open>get_fragmentation_wf\<close>. It normalises the \<^verbatim>\<open>qchem_input_params\<close>
  dictionary, stores the PCM dielectric constant in it, constructs one or two fireworks
  by keyword call and wraps them in a \<^verbatim>\<open>Workflow\<close>.

  The embedding keeps what the function can observe:
  \<^item> Python values as a datatype; a dictionary is an object on a heap and a value only
    holds a reference to it, so that in-place mutation and sharing are visible;
  \<^item> a constructor call as the list of keyword arguments it received, in the order of
    the source; a keyword that is not in the list was not passed;
  \<^item> an exception of a constructor as a value of the result.
\<close>

subsection \<open>Values, dictionaries and the heap\<close>

text \<open>
  The molecule is a pymatgen object; the function reads
  \<^verbatim>\<open>molecule.composition.reduced_formula\<close> and nothing else of it.
\<close>

record composition =
  reduced_formula :: string

record molecule =
  composition :: composition

type_synonym ref = nat

text \<open>
  \<open>PyDict r\<close> is a reference to the dictionary stored at address \<open>r\<close>. The payload of
  \<open>PyFloat\<close> is never computed with: floats are only compared with \<^verbatim>\<open>None\<close> and stored.
\<close>

datatype pyval =
    PyNone
  | PyBool bool
  | PyInt int
  | PyFloat real
  | PyStr string
  | PyMolecule molecule
  | PyDict ref
  | PyFirework firework
and firework =
    FrequencyFlatteningOptimizeFW "(string \<times> pyval) list"
  | FragmentFW "(string \<times> pyval) list"

type_synonym kwds = "(string \<times> pyval) list"

text \<open>
  A dictionary with string keys, in insertion order. The heap is the list of all
  dictionary objects; a reference is an index into it and a new object is appended.
\<close>

type_synonym dict = "(string \<times> pyval) list"

type_synonym heap = "dict list"

definition new_dict :: "heap \<Rightarrow> ref \<times> heap" where
  \<comment> \<open>the literal \<^verbatim>\<open>{}\<close>: a fresh, empty dictionary object\<close>
  "new_dict h = (length h, h @ [[]])"

definition setitem :: "heap \<Rightarrow> ref \<Rightarrow> string \<Rightarrow> pyval \<Rightarrow> heap" where
  \<comment> \<open>\<^verbatim>\<open>d[k] = v\<close> on the object at \<open>r\<close>: an existing key keeps its place, a new key goes last\<close>
  "setitem h r k v = h[r := AList.update k v (h ! r)]"

definition or_empty_dict :: "ref option \<Rightarrow> heap \<Rightarrow> ref \<times> heap" where
  \<comment> \<open>\<^verbatim>\<open>x or {}\<close> for \<open>x\<close> a dictionary or \<^verbatim>\<open>None\<close>: \<^verbatim>\<open>None\<close> and the empty
      dictionary are both falsy, and then the right operand is evaluated\<close>
  "or_empty_dict x h =
     (case x of
        None \<Rightarrow> new_dict h
      | Some r \<Rightarrow> if h ! r = [] then new_dict h else (r, h))"

fun fw_keywords :: "firework \<Rightarrow> kwds" where
  "fw_keywords (FrequencyFlatteningOptimizeFW kw) = kw"
| "fw_keywords (FragmentFW kw) = kw"

fun is_FragmentFW :: "firework \<Rightarrow> bool" where
  "is_FragmentFW (FragmentFW kw) = True"
| "is_FragmentFW (FrequencyFlatteningOptimizeFW kw) = False"

definition passed :: "firework \<Rightarrow> string \<Rightarrow> pyval option" where
  \<comment> \<open>the value a firework's constructor received for a keyword, \<open>None\<close> when the keyword
      was not passed\<close>
  "passed fw k = map_of (fw_keywords fw) k"

subsection \<open>The constructors of the collaborating modules\<close>

datatype workflow =
  Workflow (fws: "firework list") (wf_name: string) (wf_kwargs: kwds)

text \<open>
  What the three constructors do with their arguments is not in this module. A
  \<open>library\<close> says on which arguments each of them raises, and with which exception; it
  may look at the dictionaries on the heap.
\<close>

record 'e library =
  ffopt_raises :: "heap \<Rightarrow> kwds \<Rightarrow> 'e option"
  fragment_raises :: "heap \<Rightarrow> kwds \<Rightarrow> 'e option"
  workflow_raises :: "heap \<Rightarrow> firework list \<Rightarrow> string \<Rightarrow> kwds \<Rightarrow> 'e option"

definition make_FrequencyFlatteningOptimizeFW ::
  "'e library \<Rightarrow> heap \<Rightarrow> kwds \<Rightarrow> 'e + firework" where
  \<comment> \<open>Modelled from the spec: the class \<^verbatim>\<open>FrequencyFlatteningOptimizeFW\<close> of
      \<^verbatim>\<open>atomate.qchem.fireworks.core\<close> is not among the sources. The spec calls it a
      pre-built job unit that parameters are passed through to: the call either raises
      or gives a node holding the keyword arguments as passed.\<close>
  "make_FrequencyFlatteningOptimizeFW lib h kw =
     (case ffopt_raises lib h kw of
        Some e \<Rightarrow> Inl e
      | None \<Rightarrow> Inr (FrequencyFlatteningOptimizeFW kw))"

definition make_FragmentFW :: "'e library \<Rightarrow> heap \<Rightarrow> kwds \<Rightarrow> 'e + firework" where
  \<comment> \<open>Modelled from the spec: the class \<^verbatim>\<open>FragmentFW\<close> of
      \<^verbatim>\<open>atomate.qchem.fireworks.core\<close> is not among the sources; as above.\<close>
  "make_FragmentFW lib h kw =
     (case fragment_raises lib h kw of
        Some e \<Rightarrow> Inl e
      | None \<Rightarrow> Inr (FragmentFW kw))"

definition make_Workflow ::
  "'e library \<Rightarrow> heap \<Rightarrow> firework list \<Rightarrow> string \<Rightarrow> kwds \<Rightarrow> 'e + workflow" where
  \<comment> \<open>Modelled from the spec: the class \<^verbatim>\<open>Workflow\<close> of the fireworks package is not
      among the sources. The spec calls it a container of the nodes with a name: the call
      \<^verbatim>\<open>Workflow(fws, name=wfname, **kwargs)\<close> either raises or gives the container
      of the list, the name and the other keyword arguments.\<close>
  "make_Workflow lib h fs n kw =
     (case workflow_raises lib h fs n kw of
        Some e \<Rightarrow> Inl e
      | None \<Rightarrow> Inr (Workflow fs n kw))"

subsection \<open>get_fragmentation_wf\<close>

text \<open>
  The parameters of the function. \<open>molecule\<close>, \<open>do_optimization\<close>, \<open>qchem_input_params\<close>
  and \<open>name\<close> have the types of the docstring, since the function reads them;
  \<open>pcm_dielectric\<close> is any value, compared with \<^verbatim>\<open>None\<close>; the parameters that are only
  handed on are any value. \<open>kwargs\<close> holds the keyword arguments that match no parameter.
\<close>

record args =
  molecule :: molecule
  depth :: pyval
  open_rings :: pyval
  pcm_dielectric :: pyval
  do_optimization :: bool
  max_cores :: pyval
  qchem_input_params :: "ref option"
  name :: string
  qchem_cmd :: pyval
  db_file :: pyval
  check_db :: pyval
  kwargs :: kwds

definition defaults :: "molecule \<Rightarrow> pyval \<Rightarrow> args" where
  \<comment> \<open>the call \<^verbatim>\<open>get_fragmentation_wf(molecule, depth)\<close>: every other parameter omitted\<close>
  "defaults m d =
     \<lparr> molecule = m,
       depth = d,
       open_rings = PyBool True,
       pcm_dielectric = PyNone,
       do_optimization = True,
       max_cores = PyStr ''>>max_cores<<'',
       qchem_input_params = None,
       name = ''FF then fragment'',
       qchem_cmd = PyStr ''>>qchem_cmd<<'',
       db_file = PyStr ''>>db_file<<'',
       check_db = PyBool True,
       kwargs = [] \<rparr>"

definition normalise_params :: "args \<Rightarrow> heap \<Rightarrow> ref \<times> heap" where
  \<comment> \<open>lines 82 to 84: the dictionary the fireworks get, and the heap after the update\<close>
  "normalise_params a h =
     (let (q, h1) = or_empty_dict (qchem_input_params a) h
      in if pcm_dielectric a \<noteq> PyNone
         then (q, setitem h1 q ''pcm_dielectric'' (pcm_dielectric a))
         else (q, h1))"

definition build_fws :: "'e library \<Rightarrow> args \<Rightarrow> ref \<Rightarrow> heap \<Rightarrow> 'e + firework list" where
  \<comment> \<open>lines 86 to 121: the two branches on \<^verbatim>\<open>do_optimization\<close>\<close>
  "build_fws lib a q h =
     (if do_optimization a then
        (case make_FrequencyFlatteningOptimizeFW lib h
                [(''molecule'', PyMolecule (molecule a)),
                 (''name'', PyStr ''first FF''),
                 (''qchem_cmd'', qchem_cmd a),
                 (''max_cores'', max_cores a),
                 (''qchem_input_params'', PyDict q),
                 (''db_file'', db_file a)] of
           Inl e \<Rightarrow> Inl e
         | Inr fw1 \<Rightarrow>
             (case make_FragmentFW lib h
                     [(''depth'', depth a),
                      (''open_rings'', open_rings a),
                      (''name'', PyStr ''fragment and FF_opt''),
                      (''qchem_cmd'', qchem_cmd a),
                      (''max_cores'', max_cores a),
                      (''qchem_input_params'', PyDict q),
                      (''db_file'', db_file a),
                      (''check_db'', check_db a),
                      (''parents'', PyFirework fw1)] of
                Inl e \<Rightarrow> Inl e
              | Inr fw2 \<Rightarrow> Inr [fw1, fw2]))
      else
        (case make_FragmentFW lib h
                [(''molecule'', PyMolecule (molecule a)),
                 (''depth'', depth a),
                 (''open_rings'', open_rings a),
                 (''name'', PyStr ''fragment and FF_opt''),
                 (''qchem_cmd'', qchem_cmd a),
                 (''max_cores'', max_cores a),
                 (''qchem_input_params'', PyDict q),
                 (''db_file'', db_file a),
                 (''check_db'', check_db a)] of
           Inl e \<Rightarrow> Inl e
         | Inr fw1 \<Rightarrow> Inr [fw1]))"

definition wfname :: "args \<Rightarrow> string" where
  \<comment> \<open>line 123: \<^verbatim>\<open>"{}:{}".format(molecule.composition.reduced_formula, name)\<close>\<close>
  "wfname a = reduced_formula (composition (molecule a)) @ '':'' @ name a"

definition get_fragmentation_wf :: "'e library \<Rightarrow> args \<Rightarrow> heap \<Rightarrow> heap \<times> ('e + workflow)" where
  \<comment> \<open>the heap the caller sees afterwards, and the exception raised or the workflow
      returned\<close>
  "get_fragmentation_wf lib a h =
     (let (q, h') = normalise_params a h
      in (h', case build_fws lib a q h' of
                Inl e \<Rightarrow> Inl e
              | Inr fs \<Rightarrow> make_Workflow lib h' fs (wfname a) (kwargs a)))"

subsection \<open>Arguments that do not have the documented types\<close>

text \<open>
  Python checks no type at a call, so every parameter can hold a value of another type
  than the docstring names. The function reads four of its parameters: the truth value
  of \<^verbatim>\<open>qchem_input_params\<close> and of \<^verbatim>\<open>do_optimization\<close>, an item assignment on
  \<^verbatim>\<open>qchem_input_params\<close>, the attribute \<^verbatim>\<open>composition\<close> of \<^verbatim>\<open>molecule\<close> and the
  string form of \<^verbatim>\<open>name\<close>. A \<open>scalar\<close> is a built-in value, for which the language
  fixes all of these: \<^verbatim>\<open>None\<close>, a bool, an int or a text string. It has a truth value
  and a string form, no attribute \<^verbatim>\<open>composition\<close>, and it does not support item
  assignment.
\<close>

datatype scalar = SNone | SBool bool | SInt int | SStr string

fun truthy :: "scalar \<Rightarrow> bool" where
  "truthy SNone = False"
| "truthy (SBool b) = b"
| "truthy (SInt n) = (n \<noteq> 0)"
| "truthy (SStr s) = (s \<noteq> [])"

fun val_of :: "scalar \<Rightarrow> pyval" where
  "val_of SNone = PyNone"
| "val_of (SBool b) = PyBool b"
| "val_of (SInt n) = PyInt n"
| "val_of (SStr s) = PyStr s"

fun str_nat :: "nat \<Rightarrow> string" where
  "str_nat n =
     (if n < 10 then [''0123456789'' ! n]
      else str_nat (n div 10) @ [''0123456789'' ! (n mod 10)])"

declare str_nat.simps [simp del]

fun py_str :: "scalar \<Rightarrow> string" where
  \<comment> \<open>what \<^verbatim>\<open>"{}".format(x)\<close> gives\<close>
  "py_str SNone = ''None''"
| "py_str (SBool b) = (if b then ''True'' else ''False'')"
| "py_str (SInt n) = (if n < 0 then ''-'' @ str_nat (nat (- n)) else str_nat (nat n))"
| "py_str (SStr s) = s"

text \<open>
  The arguments as a caller can pass them. The parameters that are only handed on are
  any value, as before; each parameter the function reads holds a value of the
  documented type or a scalar.
\<close>

record raw_args =
  raw_molecule :: "scalar + molecule"
  raw_depth :: pyval
  raw_open_rings :: pyval
  raw_pcm_dielectric :: pyval
  raw_do_optimization :: scalar
  raw_max_cores :: pyval
  raw_qchem_input_params :: "scalar + ref"
  raw_name :: scalar
  raw_qchem_cmd :: pyval
  raw_db_file :: pyval
  raw_check_db :: pyval
  raw_kwargs :: kwds

definition untyped :: "args \<Rightarrow> raw_args" where
  \<comment> \<open>arguments of the documented types, among all arguments\<close>
  "untyped a =
     \<lparr> raw_molecule = Inr (molecule a),
       raw_depth = depth a,
       raw_open_rings = open_rings a,
       raw_pcm_dielectric = pcm_dielectric a,
       raw_do_optimization = SBool (do_optimization a),
       raw_max_cores = max_cores a,
       raw_qchem_input_params =
         (case qchem_input_params a of None \<Rightarrow> Inl SNone | Some r \<Rightarrow> Inr r),
       raw_name = SStr (name a),
       raw_qchem_cmd = qchem_cmd a,
       raw_db_file = db_file a,
       raw_check_db = check_db a,
       raw_kwargs = kwargs a \<rparr>"

text \<open>
  The exceptions that can leave the function: the two the interpreter raises in the
  function itself, and those a constructor of the library raises.
\<close>

datatype 'e exn = TypeError | AttributeError | Raised 'e

text \<open>The constructor calls the function makes, recorded in the order it makes them.\<close>

datatype libcall =
    NewFrequencyFlatteningOptimizeFW kwds
  | NewFragmentFW kwds
  | NewWorkflow "firework list" string kwds



definition raw_normalise_params ::
  "raw_args \<Rightarrow> heap \<Rightarrow> heap \<times> ('e exn + (scalar + ref))" where
  \<comment> \<open>lines 82 to 84. Line 82 keeps a truthy value of any type and replaces a falsy one
      by a new dictionary; the item assignment of line 84 raises \<^verbatim>\<open>TypeError\<close> on a
      scalar.\<close>
  "raw_normalise_params d h =
     (let (p, h1) =
            (case raw_qchem_input_params d of
               Inr r \<Rightarrow> (case or_empty_dict (Some r) h of (q, h1) \<Rightarrow> (Inr q, h1))
             | Inl s \<Rightarrow>
                 if truthy s then (Inl s, h)
                 else (case new_dict h of (q, h1) \<Rightarrow> (Inr q, h1)))
      in if raw_pcm_dielectric d \<noteq> PyNone then
           (case p of
              Inr q \<Rightarrow> (setitem h1 q ''pcm_dielectric'' (raw_pcm_dielectric d), Inr p)
            | Inl s \<Rightarrow> (h1, Inl TypeError))
         else (h1, Inr p))"

definition params_value :: "scalar + ref \<Rightarrow> pyval" where
  \<comment> \<open>the value of \<^verbatim>\<open>qchem_input_params\<close> after line 84\<close>
  "params_value p = (case p of Inl s \<Rightarrow> val_of s | Inr q \<Rightarrow> PyDict q)"

definition molecule_value :: "raw_args \<Rightarrow> pyval" where
  "molecule_value d = (case raw_molecule d of Inl s \<Rightarrow> val_of s | Inr m \<Rightarrow> PyMolecule m)"

definition first_FF_keywords :: "raw_args \<Rightarrow> pyval \<Rightarrow> kwds" where
  \<comment> \<open>lines 88 to 94\<close>
  "first_FF_keywords d p =
     [(''molecule'', molecule_value d),
      (''name'', PyStr ''first FF''),
      (''qchem_cmd'', raw_qchem_cmd d),
      (''max_cores'', raw_max_cores d),
      (''qchem_input_params'', p),
      (''db_file'', raw_db_file d)]"

definition fragment_child_keywords :: "raw_args \<Rightarrow> pyval \<Rightarrow> firework \<Rightarrow> kwds" where
  \<comment> \<open>lines 97 to 106\<close>
  "fragment_child_keywords d p fw1 =
     [(''depth'', raw_depth d),
      (''open_rings'', raw_open_rings d),
      (''name'', PyStr ''fragment and FF_opt''),
      (''qchem_cmd'', raw_qchem_cmd d),
      (''max_cores'', raw_max_cores d),
      (''qchem_input_params'', p),
      (''db_file'', raw_db_file d),
      (''check_db'', raw_check_db d),
      (''parents'', PyFirework fw1)]"

definition fragment_only_keywords :: "raw_args \<Rightarrow> pyval \<Rightarrow> kwds" where
  \<comment> \<open>lines 111 to 120\<close>
  "fragment_only_keywords d p =
     [(''molecule'', molecule_value d),
      (''depth'', raw_depth d),
      (''open_rings'', raw_open_rings d),
      (''name'', PyStr ''fragment and FF_opt''),
      (''qchem_cmd'', raw_qchem_cmd d),
      (''max_cores'', raw_max_cores d),
      (''qchem_input_params'', p),
      (''db_file'', raw_db_file d),
      (''check_db'', raw_check_db d)]"

definition raw_build_fws ::
  "'e library \<Rightarrow> raw_args \<Rightarrow> pyval \<Rightarrow> heap \<Rightarrow> libcall list \<times> ('e + firework list)" where
  \<comment> \<open>lines 86 to 121: the calls made, and the exception of the last one or the list
      \<^verbatim>\<open>fws\<close>\<close>
  "raw_build_fws lib d p h =
     (if truthy (raw_do_optimization d) then
        (case make_FrequencyFlatteningOptimizeFW lib h (first_FF_keywords d p) of
           Inl e \<Rightarrow> ([NewFrequencyFlatteningOptimizeFW (first_FF_keywords d p)], Inl e)
         | Inr fw1 \<Rightarrow>
             (case make_FragmentFW lib h (fragment_child_keywords d p fw1) of
                Inl e \<Rightarrow>
                  ([NewFrequencyFlatteningOptimizeFW (first_FF_keywords d p),
                    NewFragmentFW (fragment_child_keywords d p fw1)], Inl e)
              | Inr fw2 \<Rightarrow>
                  ([NewFrequencyFlatteningOptimizeFW (first_FF_keywords d p),
                    NewFragmentFW (fragment_child_keywords d p fw1)], Inr [fw1, fw2])))
      else
        (case make_FragmentFW lib h (fragment_only_keywords d p) of
           Inl e \<Rightarrow> ([NewFragmentFW (fragment_only_keywords d p)], Inl e)
         | Inr fw1 \<Rightarrow> ([NewFragmentFW (fragment_only_keywords d p)], Inr [fw1])))"

definition get_fragmentation_wf_raw ::
  "'e library \<Rightarrow> raw_args \<Rightarrow> heap \<Rightarrow> heap \<times> libcall list \<times> ('e exn + workflow)" where
  \<comment> \<open>the function on arguments of any type: the heap afterwards, the constructor calls
      made, and the exception raised or the workflow returned. Line 123 raises
      \<^verbatim>\<open>AttributeError\<close> on a scalar molecule, after the fireworks are built.\<close>
  "get_fragmentation_wf_raw lib d h =
     (case raw_normalise_params d h of
        (h', Inl x) \<Rightarrow> (h', [], Inl x)
      | (h', Inr p) \<Rightarrow>
          (case raw_build_fws lib d (params_value p) h' of
             (calls, Inl e) \<Rightarrow> (h', calls, Inl (Raised e))
           | (calls, Inr fs) \<Rightarrow>
               (case raw_molecule d of
                  Inl s \<Rightarrow> (h', calls, Inl AttributeError)
                | Inr m \<Rightarrow>
                    (let n = reduced_formula (composition m) @ '':'' @ py_str (raw_name d)
                     in (h', calls @ [NewWorkflow fs n (raw_kwargs d)],
                         case make_Workflow lib h' fs n (raw_kwargs d) of
                           Inl e \<Rightarrow> Inl (Raised e)
                         | Inr w \<Rightarrow> Inr w)))))"

subsection \<open>Notions the properties are stated with\<close>

definition given_params :: "args \<Rightarrow> heap \<Rightarrow> dict" where
  \<comment> \<open>the entries of the dictionary the caller passed, before the call; none for
      \<^verbatim>\<open>None\<close>\<close>
  "given_params a h = (case qchem_input_params a of None \<Rightarrow> [] | Some r \<Rightarrow> h ! r)"

definition valid_ref :: "args \<Rightarrow> heap \<Rightarrow> bool" where
  \<comment> \<open>a reference the caller holds points to an object of the heap\<close>
  "valid_ref a h = (case qchem_input_params a of None \<Rightarrow> True | Some r \<Rightarrow> r < length h)"


subsection \<open>Concrete inputs\<close>

definition water :: molecule where
  "water = \<lparr> composition = \<lparr> reduced_formula = ''H2O'' \<rparr> \<rparr>"

text \<open>
  The call \<^verbatim>\<open>get_fragmentation_wf(water, 1, pcm_dielectric=78.4, qchem_input_params=p)\<close>.
\<close>

definition solvated :: "ref option \<Rightarrow> args" where
  "solvated p =
     (defaults water (PyInt 1))\<lparr> pcm_dielectric := PyFloat 78.4, qchem_input_params := p \<rparr>"

text \<open>A library whose constructors accept every argument.\<close>

definition accepting :: "unit library" where
  "accepting =
     \<lparr> ffopt_raises = (\<lambda>h kw. None),
       fragment_raises = (\<lambda>h kw. None),
       workflow_raises = (\<lambda>h fs n kw. None) \<rparr>"

text \<open>A library whose \<^verbatim>\<open>FragmentFW\<close> refuses a negative depth.\<close>

definition rejecting :: "string library" where
  "rejecting =
     \<lparr> ffopt_raises = (\<lambda>h kw. None),
       fragment_raises =
         (\<lambda>h kw. case map_of kw ''depth'' of
                    Some (PyInt n) \<Rightarrow> if n < 0 then Some ''ValueError'' else None
                  | _ \<Rightarrow> None),
       workflow_raises = (\<lambda>h fs n kw. None) \<rparr>"




section \<open>What a call returns\<close>

lemmas example_defs =
  get_fragmentation_wf_def normalise_params_def or_empty_dict_def new_dict_def setitem_def
  build_fws_def make_FrequencyFlatteningOptimizeFW_def make_FragmentFW_def make_Workflow_def
  wfname_def defaults_def accepting_def rejecting_def water_def solvated_def passed_def given_params_def
  valid_ref_def

lemma get_fragmentation_wf_Inr:
  assumes "get_fragmentation_wf lib a h = (h', Inr w)"
  shows "\<exists>q fs. normalise_params a h = (q, h') \<and> build_fws lib a q h' = Inr fs
           \<and> w = Workflow fs (wfname a) (kwargs a)"
  using assms
  by (auto simp: get_fragmentation_wf_def make_Workflow_def
           split: prod.splits sum.splits option.splits)

lemma build_fws_optimize:
  assumes "do_optimization a" and "build_fws lib a q h = Inr fs"
  shows "fs =
    [FrequencyFlatteningOptimizeFW
       [(''molecule'', PyMolecule (molecule a)), (''name'', PyStr ''first FF''),
        (''qchem_cmd'', qchem_cmd a), (''max_cores'', max_cores a),
        (''qchem_input_params'', PyDict q), (''db_file'', db_file a)],
     FragmentFW
       [(''depth'', depth a), (''open_rings'', open_rings a),
        (''name'', PyStr ''fragment and FF_opt''), (''qchem_cmd'', qchem_cmd a),
        (''max_cores'', max_cores a), (''qchem_input_params'', PyDict q),
        (''db_file'', db_file a), (''check_db'', check_db a),
        (''parents'', PyFirework (FrequencyFlatteningOptimizeFW
           [(''molecule'', PyMolecule (molecule a)), (''name'', PyStr ''first FF''),
            (''qchem_cmd'', qchem_cmd a), (''max_cores'', max_cores a),
            (''qchem_input_params'', PyDict q), (''db_file'', db_file a)]))]]"
  using assms
  by (auto simp: build_fws_def make_FrequencyFlatteningOptimizeFW_def make_FragmentFW_def
           split: sum.splits option.splits)

lemma build_fws_fragment_only:
  assumes "\<not> do_optimization a" and "build_fws lib a q h = Inr fs"
  shows "fs =
    [FragmentFW
       [(''molecule'', PyMolecule (molecule a)), (''depth'', depth a),
        (''open_rings'', open_rings a), (''name'', PyStr ''fragment and FF_opt''),
        (''qchem_cmd'', qchem_cmd a), (''max_cores'', max_cores a),
        (''qchem_input_params'', PyDict q), (''db_file'', db_file a),
        (''check_db'', check_db a)]]"
  using assms
  by (auto simp: build_fws_def make_FragmentFW_def split: sum.splits option.splits)

text \<open>
  The heap after the call is the one lines 82 to 84 leave, whether or not a constructor
  raises afterwards.
\<close>

lemma fst_get_fragmentation_wf:
  "fst (get_fragmentation_wf lib a h) = snd (normalise_params a h)"
  by (simp add: get_fragmentation_wf_def split: prod.splits)

lemma normalise_params_result:
  assumes "valid_ref a h" and "normalise_params a h = (q, h')"
  shows "q < length h' \<and>
         h' ! q = (if pcm_dielectric a = PyNone then given_params a h
                   else AList.update ''pcm_dielectric'' (pcm_dielectric a) (given_params a h))"
  using assms
  by (auto simp: normalise_params_def or_empty_dict_def new_dict_def setitem_def
                 valid_ref_def given_params_def nth_append
           split: option.splits if_splits)

lemma normalise_params_in_place:
  assumes "qchem_input_params a = Some r" and "h ! r \<noteq> []"
  shows "normalise_params a h =
           (r, if pcm_dielectric a = PyNone then h
               else h[r := AList.update ''pcm_dielectric'' (pcm_dielectric a) (h ! r)])"
  using assms
  by (simp add: normalise_params_def or_empty_dict_def setitem_def)

subsection \<open>The shape of the workflow\<close>

text \<open>
  C1. When \<^verbatim>\<open>do_optimization\<close> is true, the workflow returned holds exactly two
  fireworks: first the optimization node, then the fragmentation node, and the
  fragmentation node was constructed with \<^verbatim>\<open>parents\<close> the optimization node.
\<close>

theorem optimize_gives_two_linked_fireworks:
  assumes "do_optimization a" and "get_fragmentation_wf lib a h = (h', Inr w)"
  shows "\<exists>kw1 kw2. fws w = [FrequencyFlatteningOptimizeFW kw1, FragmentFW kw2]
           \<and> map_of kw2 ''parents'' = Some (PyFirework (FrequencyFlatteningOptimizeFW kw1))"
proof -
  from get_fragmentation_wf_Inr [OF assms(2)] obtain q fs where
    fs: "build_fws lib a q h' = Inr fs" and w: "w = Workflow fs (wfname a) (kwargs a)"
    by blast
  show ?thesis
    unfolding w build_fws_optimize [OF assms(1) fs] by simp
qed

theorem optimize_gives_two_linked_fireworks_witness:
  "do_optimization (defaults water (PyInt 1)) \<and>
   snd (get_fragmentation_wf accepting (defaults water (PyInt 1)) []) =
     Inr (Workflow
       [FrequencyFlatteningOptimizeFW
          [(''molecule'', PyMolecule water), (''name'', PyStr ''first FF''),
           (''qchem_cmd'', PyStr ''>>qchem_cmd<<''), (''max_cores'', PyStr ''>>max_cores<<''),
           (''qchem_input_params'', PyDict 0), (''db_file'', PyStr ''>>db_file<<'')],
        FragmentFW
          [(''depth'', PyInt 1), (''open_rings'', PyBool True),
           (''name'', PyStr ''fragment and FF_opt''),
           (''qchem_cmd'', PyStr ''>>qchem_cmd<<''), (''max_cores'', PyStr ''>>max_cores<<''),
           (''qchem_input_params'', PyDict 0), (''db_file'', PyStr ''>>db_file<<''),
           (''check_db'', PyBool True),
           (''parents'', PyFirework (FrequencyFlatteningOptimizeFW
              [(''molecule'', PyMolecule water), (''name'', PyStr ''first FF''),
               (''qchem_cmd'', PyStr ''>>qchem_cmd<<''),
               (''max_cores'', PyStr ''>>max_cores<<''),
               (''qchem_input_params'', PyDict 0), (''db_file'', PyStr ''>>db_file<<'')]))]]
       ''H2O:FF then fragment'' []) \<and>
   (\<exists>kw1 kw2.
      fws (projr (snd (get_fragmentation_wf accepting (defaults water (PyInt 1)) []))) =
        [FrequencyFlatteningOptimizeFW kw1, FragmentFW kw2] \<and>
      map_of kw2 ''parents'' = Some (PyFirework (FrequencyFlatteningOptimizeFW kw1)))"
proof -
  let ?r = "get_fragmentation_wf accepting (defaults water (PyInt 1)) []"
  have d: "do_optimization (defaults water (PyInt 1))"
    by (simp add: defaults_def)
  have r: "?r = (fst ?r, Inr (projr (snd ?r)))"
    by (simp add: example_defs)
  show ?thesis
    using d optimize_gives_two_linked_fireworks [OF d r]
    by (simp add: example_defs)
qed

text \<open>
  C2. When \<^verbatim>\<open>do_optimization\<close> is false, the workflow returned holds exactly one
  firework, the fragmentation node, constructed without \<^verbatim>\<open>parents\<close>.
\<close>

theorem no_optimize_gives_one_firework:
  assumes "\<not> do_optimization a" and "get_fragmentation_wf lib a h = (h', Inr w)"
  shows "\<exists>kw. fws w = [FragmentFW kw] \<and> map_of kw ''parents'' = None"
proof -
  from get_fragmentation_wf_Inr [OF assms(2)] obtain q fs where
    fs: "build_fws lib a q h' = Inr fs" and w: "w = Workflow fs (wfname a) (kwargs a)"
    by blast
  show ?thesis
    unfolding w build_fws_fragment_only [OF assms(1) fs] by simp
qed

theorem no_optimize_gives_one_firework_witness:
  "\<not> do_optimization ((defaults water (PyInt 1))\<lparr>do_optimization := False\<rparr>) \<and>
   snd (get_fragmentation_wf accepting
          ((defaults water (PyInt 1))\<lparr>do_optimization := False\<rparr>) []) =
     Inr (Workflow
       [FragmentFW
          [(''molecule'', PyMolecule water), (''depth'', PyInt 1),
           (''open_rings'', PyBool True), (''name'', PyStr ''fragment and FF_opt''),
           (''qchem_cmd'', PyStr ''>>qchem_cmd<<''), (''max_cores'', PyStr ''>>max_cores<<''),
           (''qchem_input_params'', PyDict 0), (''db_file'', PyStr ''>>db_file<<''),
           (''check_db'', PyBool True)]]
       ''H2O:FF then fragment'' []) \<and>
   (\<exists>kw. fws (projr (snd (get_fragmentation_wf accepting
                  ((defaults water (PyInt 1))\<lparr>do_optimization := False\<rparr>) []))) =
            [FragmentFW kw] \<and>
         map_of kw ''parents'' = None)"
proof -
  let ?a = "(defaults water (PyInt 1))\<lparr>do_optimization := False\<rparr>"
  let ?r = "get_fragmentation_wf accepting ?a []"
  have d: "\<not> do_optimization ?a"
    by simp
  have r: "?r = (fst ?r, Inr (projr (snd ?r)))"
    by (simp add: example_defs)
  show ?thesis
    using d no_optimize_gives_one_firework [OF d r]
    by (simp add: example_defs)
qed

subsection \<open>The name of the workflow\<close>

text \<open>
  C3, as stated: the name of the workflow is the reduced formula of the molecule
  concatenated with the \<^verbatim>\<open>name\<close> label. The default call on water returns a workflow
  named \<^verbatim>\<open>H2O:FF then fragment\<close>, and the concatenation is
  \<^verbatim>\<open>H2OFF then fragment\<close>.
\<close>

theorem workflow_name_is_concatenation_counterexample:
  "map_sum id wf_name (snd (get_fragmentation_wf accepting (defaults water (PyInt 1)) [])) =
     Inr ''H2O:FF then fragment'' \<and>
   reduced_formula (composition (molecule (defaults water (PyInt 1)))) @
     name (defaults water (PyInt 1)) = ''H2OFF then fragment'' \<and>
   ''H2O:FF then fragment'' \<noteq> ''H2OFF then fragment''"
  by (simp add: example_defs)

text \<open>
  C3, amended: the name of the workflow returned is the reduced formula of the molecule,
  a colon, and the \<^verbatim>\<open>name\<close> label, in this order.
\<close>

theorem workflow_name_is_formula_colon_label:
  assumes "get_fragmentation_wf lib a h = (h', Inr w)"
  shows "wf_name w = reduced_formula (composition (molecule a)) @ '':'' @ name a"
proof -
  from get_fragmentation_wf_Inr [OF assms] obtain fs where
    "w = Workflow fs (wfname a) (kwargs a)"
    by blast
  then show ?thesis
    by (simp add: wfname_def)
qed

theorem workflow_name_is_formula_colon_label_witness:
  "map_sum id wf_name
     (snd (get_fragmentation_wf accepting ((defaults water (PyInt 1))\<lparr>name := ''bde''\<rparr>) [])) =
     Inr ''H2O:bde''"
proof -
  let ?a = "(defaults water (PyInt 1))\<lparr>name := ''bde''\<rparr>"
  let ?r = "get_fragmentation_wf accepting ?a []"
  have r: "?r = (fst ?r, Inr (projr (snd ?r)))"
    by (simp add: example_defs)
  have "reduced_formula (composition (molecule ?a)) @ '':'' @ name ?a = ''H2O:bde''"
    by (simp add: defaults_def water_def)
  with workflow_name_is_formula_colon_label [OF r]
  have "wf_name (projr (snd ?r)) = ''H2O:bde''"
    by simp
  moreover have "snd ?r = Inr (projr (snd ?r))"
    using r by (metis snd_conv)
  ultimately show ?thesis
    by (metis map_sum.simps(2))
qed

subsection \<open>The parameters handed on to every firework\<close>

lemma passed_through_both_branches:
  assumes "build_fws lib a q h = Inr fs" and "fw \<in> set fs"
  shows "passed fw ''max_cores'' = Some (max_cores a) \<and>
         passed fw ''qchem_cmd'' = Some (qchem_cmd a) \<and>
         passed fw ''db_file'' = Some (db_file a) \<and>
         passed fw ''qchem_input_params'' = Some (PyDict q)"
proof (cases "do_optimization a")
  case True
  from assms(2) show ?thesis
    unfolding build_fws_optimize [OF True assms(1)] by (auto simp: passed_def)
next
  case False
  from assms(2) show ?thesis
    unfolding build_fws_fragment_only [OF False assms(1)] by (auto simp: passed_def)
qed

lemma build_fws_not_empty:
  assumes "build_fws lib a q h = Inr fs"
  shows "fs \<noteq> []"
  using assms build_fws_optimize [of a lib q h fs] build_fws_fragment_only [of a lib q h fs]
  by (cases "do_optimization a") auto

text \<open>
  C4, as stated: \<^verbatim>\<open>max_cores\<close>, \<^verbatim>\<open>qchem_cmd\<close>, \<^verbatim>\<open>db_file\<close> and
  \<^verbatim>\<open>qchem_input_params\<close> appear unmodified in every firework, also when
  \<^verbatim>\<open>pcm_dielectric\<close> is given. A caller passes the dictionary
  \<^verbatim>\<open>{"basis": "6-31g*"}\<close> and \<^verbatim>\<open>pcm_dielectric=78.4\<close>: the dictionary the
  firework holds has a second entry.
\<close>

theorem params_unmodified_counterexample:
  "given_params (solvated (Some 0)) [[(''basis'', PyStr ''6-31g*'')]] =
     [(''basis'', PyStr ''6-31g*'')] \<and>
   map_sum id (map (\<lambda>fw. passed fw ''qchem_input_params'') \<circ> fws)
     (snd (get_fragmentation_wf accepting (solvated (Some 0)) [[(''basis'', PyStr ''6-31g*'')]])) =
     Inr [Some (PyDict 0), Some (PyDict 0)] \<and>
   fst (get_fragmentation_wf accepting (solvated (Some 0)) [[(''basis'', PyStr ''6-31g*'')]]) ! 0 =
     [(''basis'', PyStr ''6-31g*''), (''pcm_dielectric'', PyFloat 78.4)] \<and>
   fst (get_fragmentation_wf accepting (solvated (Some 0)) [[(''basis'', PyStr ''6-31g*'')]]) ! 0 \<noteq>
     given_params (solvated (Some 0)) [[(''basis'', PyStr ''6-31g*'')]]"
  by (simp add: example_defs)

text \<open>
  C4, amended: \<^verbatim>\<open>max_cores\<close>, \<^verbatim>\<open>qchem_cmd\<close> and \<^verbatim>\<open>db_file\<close> appear unmodified in
  every firework of the workflow returned. Every firework gets for
  \<^verbatim>\<open>qchem_input_params\<close> a dictionary that holds the entries the caller passed (none
  for \<^verbatim>\<open>None\<close>) when \<^verbatim>\<open>pcm_dielectric\<close> is \<^verbatim>\<open>None\<close>, and these entries with the
  key \<^verbatim>\<open>"pcm_dielectric"\<close> set to the given value otherwise.
\<close>

theorem params_passed_through:
  assumes "valid_ref a h" and "get_fragmentation_wf lib a h = (h', Inr w)"
  shows "fws w \<noteq> [] \<and>
    (\<forall>fw \<in> set (fws w).
       passed fw ''max_cores'' = Some (max_cores a) \<and>
       passed fw ''qchem_cmd'' = Some (qchem_cmd a) \<and>
       passed fw ''db_file'' = Some (db_file a) \<and>
       (\<exists>q. passed fw ''qchem_input_params'' = Some (PyDict q) \<and>
            h' ! q =
              (if pcm_dielectric a = PyNone then given_params a h
               else AList.update ''pcm_dielectric'' (pcm_dielectric a) (given_params a h))))"
proof -
  from get_fragmentation_wf_Inr [OF assms(2)] obtain q fs where
    n: "normalise_params a h = (q, h')" and
    fs: "build_fws lib a q h' = Inr fs" and
    w: "w = Workflow fs (wfname a) (kwargs a)"
    by blast
  have "fws w \<noteq> []"
    using build_fws_not_empty [OF fs] by (simp add: w)
  moreover have "\<forall>fw \<in> set (fws w).
       passed fw ''max_cores'' = Some (max_cores a) \<and>
       passed fw ''qchem_cmd'' = Some (qchem_cmd a) \<and>
       passed fw ''db_file'' = Some (db_file a) \<and>
       (\<exists>q. passed fw ''qchem_input_params'' = Some (PyDict q) \<and>
            h' ! q =
              (if pcm_dielectric a = PyNone then given_params a h
               else AList.update ''pcm_dielectric'' (pcm_dielectric a) (given_params a h)))"
  proof
    fix fw assume "fw \<in> set (fws w)"
    then have "fw \<in> set fs" by (simp add: w)
    from passed_through_both_branches [OF fs this] normalise_params_result [OF assms(1) n]
    show "passed fw ''max_cores'' = Some (max_cores a) \<and>
       passed fw ''qchem_cmd'' = Some (qchem_cmd a) \<and>
       passed fw ''db_file'' = Some (db_file a) \<and>
       (\<exists>q. passed fw ''qchem_input_params'' = Some (PyDict q) \<and>
            h' ! q =
              (if pcm_dielectric a = PyNone then given_params a h
               else AList.update ''pcm_dielectric'' (pcm_dielectric a) (given_params a h)))"
      by blast
  qed
  ultimately show ?thesis by blast
qed

theorem params_passed_through_witness:
  "valid_ref (solvated (Some 0)) [[(''basis'', PyStr ''6-31g*'')]] \<and>
   map_sum id (map (\<lambda>fw. (passed fw ''max_cores'', passed fw ''qchem_cmd'',
                          passed fw ''db_file'', passed fw ''qchem_input_params'')) \<circ> fws)
     (snd (get_fragmentation_wf accepting (solvated (Some 0)) [[(''basis'', PyStr ''6-31g*'')]])) =
     Inr [(Some (PyStr ''>>max_cores<<''), Some (PyStr ''>>qchem_cmd<<''),
           Some (PyStr ''>>db_file<<''), Some (PyDict 0)),
          (Some (PyStr ''>>max_cores<<''), Some (PyStr ''>>qchem_cmd<<''),
           Some (PyStr ''>>db_file<<''), Some (PyDict 0))] \<and>
   fst (get_fragmentation_wf accepting (solvated (Some 0)) [[(''basis'', PyStr ''6-31g*'')]]) ! 0 =
     AList.update ''pcm_dielectric'' (PyFloat 78.4) [(''basis'', PyStr ''6-31g*'')]"
proof -
  let ?h = "[[(''basis'', PyStr ''6-31g*'')]]"
  let ?r = "get_fragmentation_wf accepting (solvated (Some 0)) ?h"
  have v: "valid_ref (solvated (Some 0)) ?h"
    by (simp add: valid_ref_def solvated_def)
  have r: "?r = (fst ?r, Inr (projr (snd ?r)))"
    by (simp add: example_defs)
  show ?thesis
    using v params_passed_through [OF v r]
    by (simp add: example_defs)
qed

subsection \<open>The effect on the caller's dictionary\<close>

text \<open>
  C5, as stated: when \<^verbatim>\<open>pcm_dielectric\<close> is not \<^verbatim>\<open>None\<close> and the caller supplies a
  dictionary, that dictionary gets the key \<^verbatim>\<open>"pcm_dielectric"\<close>. A caller supplies an
  empty dictionary, the only object of the heap: after the call it is still empty, and
  the key is in a new dictionary.
\<close>

theorem supplied_dict_mutated_counterexample:
  "pcm_dielectric (solvated (Some 0)) \<noteq> PyNone \<and>
   qchem_input_params (solvated (Some 0)) = Some 0 \<and>
   fst (get_fragmentation_wf accepting (solvated (Some 0)) [[]]) =
     [[], [(''pcm_dielectric'', PyFloat 78.4)]] \<and>
   map_of (fst (get_fragmentation_wf accepting (solvated (Some 0)) [[]]) ! 0)
     ''pcm_dielectric'' = None"
  by (simp add: example_defs)

text \<open>
  C5, amended: when \<^verbatim>\<open>pcm_dielectric\<close> is not \<^verbatim>\<open>None\<close> and the caller supplies a
  dictionary that is not empty, the call sets the key \<^verbatim>\<open>"pcm_dielectric"\<close> of that
  dictionary to the given value, in place, whether or not a constructor raises afterwards.
  Its other keys, every other object of the heap and the number of objects stay as they
  were.
\<close>

theorem nonempty_dict_mutated_in_place:
  assumes "pcm_dielectric a \<noteq> PyNone" and "qchem_input_params a = Some r"
    and "r < length h" and "h ! r \<noteq> []"
    and "get_fragmentation_wf lib a h = (h', res)"
  shows "length h' = length h \<and>
         h' ! r = AList.update ''pcm_dielectric'' (pcm_dielectric a) (h ! r) \<and>
         map_of (h' ! r) ''pcm_dielectric'' = Some (pcm_dielectric a) \<and>
         (\<forall>k. k \<noteq> ''pcm_dielectric'' \<longrightarrow> map_of (h' ! r) k = map_of (h ! r) k) \<and>
         (\<forall>r'. r' \<noteq> r \<longrightarrow> h' ! r' = h ! r')"
proof -
  have "h' = fst (get_fragmentation_wf lib a h)"
    by (simp add: assms(5))
  then have h': "h' = h[r := AList.update ''pcm_dielectric'' (pcm_dielectric a) (h ! r)]"
    by (simp add: fst_get_fragmentation_wf normalise_params_in_place [OF assms(2) assms(4)]
                  assms(1))
  show ?thesis
    using assms(3) by (simp add: h' update_conv')
qed

theorem nonempty_dict_mutated_in_place_witness:
  "pcm_dielectric (solvated (Some 1)) \<noteq> PyNone \<and>
   qchem_input_params (solvated (Some 1)) = Some 1 \<and>
   (1::nat) < length [[(''a'', PyInt 0)], [(''basis'', PyStr ''6-31g*'')]] \<and>
   [[(''a'', PyInt 0)], [(''basis'', PyStr ''6-31g*'')]] ! 1 \<noteq> [] \<and>
   fst (get_fragmentation_wf accepting (solvated (Some 1))
          [[(''a'', PyInt 0)], [(''basis'', PyStr ''6-31g*'')]]) =
     [[(''a'', PyInt 0)], [(''basis'', PyStr ''6-31g*''), (''pcm_dielectric'', PyFloat 78.4)]]"
proof -
  let ?h = "[[(''a'', PyInt 0)], [(''basis'', PyStr ''6-31g*'')]]"
  let ?r = "get_fragmentation_wf accepting (solvated (Some 1)) ?h"
  have 1: "pcm_dielectric (solvated (Some 1)) \<noteq> PyNone"
    by (simp add: solvated_def)
  have 2: "qchem_input_params (solvated (Some 1)) = Some 1"
    by (simp add: solvated_def)
  have 3: "(1::nat) < length ?h"
    by simp
  have 4: "?h ! 1 \<noteq> []"
    by simp
  have 5: "?r = (fst ?r, snd ?r)"
    by simp
  from nonempty_dict_mutated_in_place [OF 1 2 3 4 5]
  have "length (fst ?r) = 2"
    and "fst ?r ! 1 = [(''basis'', PyStr ''6-31g*''), (''pcm_dielectric'', PyFloat 78.4)]"
    and "fst ?r ! 0 = [(''a'', PyInt 0)]"
    by (simp_all add: solvated_def)
  then have "fst ?r = ?h[1 := [(''basis'', PyStr ''6-31g*''), (''pcm_dielectric'', PyFloat 78.4)]]"
    by (intro nth_equalityI) (auto simp: less_Suc_eq numeral_2_eq_2)
  with 1 2 3 4 show ?thesis
    by simp
qed

subsection \<open>Errors\<close>

text \<open>
  On arguments of the documented types the function on arguments of any type does what
  \<open>get_fragmentation_wf\<close> does.
\<close>

lemma raw_normalise_params_untyped:
  assumes "normalise_params a h = (q, h')"
  shows "raw_normalise_params (untyped a) h = (h', Inr (Inr q))"
  using assms
  by (auto simp: raw_normalise_params_def normalise_params_def untyped_def or_empty_dict_def
           split: option.splits prod.splits if_splits)

lemma raw_build_fws_untyped:
  "\<exists>calls. raw_build_fws lib (untyped a) (PyDict q) h = (calls, build_fws lib a q h)"
  by (simp add: raw_build_fws_def build_fws_def untyped_def first_FF_keywords_def
                fragment_child_keywords_def fragment_only_keywords_def molecule_value_def
           split: sum.splits)

lemma raw_agrees_on_typed_arguments:
  assumes "get_fragmentation_wf lib a h = (h', res)"
  shows "\<exists>calls. get_fragmentation_wf_raw lib (untyped a) h = (h', calls, map_sum Raised id res)"
proof -
  obtain q where n: "normalise_params a h = (q, h')"
    and res: "res = (case build_fws lib a q h' of
                       Inl e \<Rightarrow> Inl e
                     | Inr fs \<Rightarrow> make_Workflow lib h' fs (wfname a) (kwargs a))"
    using assms by (auto simp: get_fragmentation_wf_def split: prod.splits)
  obtain calls where b: "raw_build_fws lib (untyped a) (PyDict q) h' = (calls, build_fws lib a q h')"
    using raw_build_fws_untyped by blast
  have u: "raw_molecule (untyped a) = Inr (molecule a)" "raw_name (untyped a) = SStr (name a)"
    "raw_kwargs (untyped a) = kwargs a"
    by (simp_all add: untyped_def)
  show ?thesis
    by (cases "build_fws lib a q h'")
       (auto simp: get_fragmentation_wf_raw_def raw_normalise_params_untyped [OF n]
                   params_value_def b u res wfname_def Let_def
             split: sum.splits)
qed













subsection \<open>The free keyword arguments\<close>

lemma normalise_params_kwargs:
  "normalise_params (a\<lparr>kwargs := k\<rparr>) h = normalise_params a h"
  by (simp add: normalise_params_def cong: prod.case_cong if_cong)

lemma build_fws_kwargs:
  "build_fws lib (a\<lparr>kwargs := k\<rparr>) q h = build_fws lib a q h"
  by (simp add: build_fws_def cong: sum.case_cong)

text \<open>
  C7. The keyword arguments that match no parameter reach the \<^verbatim>\<open>Workflow\<close>
  constructor as they came, and the fireworks do not depend on them: two calls that
  differ in these arguments only, and both return, give the same fireworks and leave the
  same heap.
\<close>

theorem kwargs_reach_the_workflow_only:
  assumes "get_fragmentation_wf lib a h = (h1, Inr w1)"
    and "get_fragmentation_wf lib (a\<lparr>kwargs := k\<rparr>) h = (h2, Inr w2)"
  shows "wf_kwargs w1 = kwargs a \<and> wf_kwargs w2 = k \<and> fws w2 = fws w1 \<and> h2 = h1"
proof -
  from get_fragmentation_wf_Inr [OF assms(1)] obtain q1 fs1 where
    n1: "normalise_params a h = (q1, h1)" and
    fs1: "build_fws lib a q1 h1 = Inr fs1" and
    w1: "w1 = Workflow fs1 (wfname a) (kwargs a)"
    by blast
  from get_fragmentation_wf_Inr [OF assms(2)] obtain q2 fs2 where
    n2: "normalise_params (a\<lparr>kwargs := k\<rparr>) h = (q2, h2)" and
    fs2: "build_fws lib (a\<lparr>kwargs := k\<rparr>) q2 h2 = Inr fs2" and
    w2: "w2 = Workflow fs2 (wfname (a\<lparr>kwargs := k\<rparr>)) (kwargs (a\<lparr>kwargs := k\<rparr>))"
    by blast
  from n1 n2 have same: "q2 = q1" "h2 = h1"
    by (simp_all add: normalise_params_kwargs)
  with fs1 fs2 have "fs2 = fs1"
    by (simp add: build_fws_kwargs)
  with same show ?thesis
    by (simp add: w1 w2)
qed

theorem kwargs_reach_the_workflow_only_witness:
  "map_sum id (\<lambda>w. (wf_kwargs w, length (fws w)))
     (snd (get_fragmentation_wf accepting (defaults water (PyInt 1)) [])) = Inr ([], 2) \<and>
   map_sum id (\<lambda>w. (wf_kwargs w, length (fws w)))
     (snd (get_fragmentation_wf accepting
            ((defaults water (PyInt 1))\<lparr>kwargs := [(''metadata'', PyStr ''run 1'')]\<rparr>) [])) =
     Inr ([(''metadata'', PyStr ''run 1'')], 2) \<and>
   fws (projr (snd (get_fragmentation_wf accepting
            ((defaults water (PyInt 1))\<lparr>kwargs := [(''metadata'', PyStr ''run 1'')]\<rparr>) []))) =
   fws (projr (snd (get_fragmentation_wf accepting (defaults water (PyInt 1)) [])))"
proof -
  let ?a = "defaults water (PyInt 1)"
  let ?k = "[(''metadata'', PyStr ''run 1'')]"
  let ?r1 = "get_fragmentation_wf accepting ?a []"
  let ?r2 = "get_fragmentation_wf accepting (?a\<lparr>kwargs := ?k\<rparr>) []"
  have r1: "?r1 = (fst ?r1, Inr (projr (snd ?r1)))"
    by (simp add: example_defs)
  have r2: "?r2 = (fst ?r2, Inr (projr (snd ?r2)))"
    by (simp add: example_defs)
  have e1: "map_sum id (\<lambda>w. (wf_kwargs w, length (fws w))) (snd ?r1) = Inr ([], 2)"
    by (simp add: example_defs)
  have e2: "map_sum id (\<lambda>w. (wf_kwargs w, length (fws w))) (snd ?r2) = Inr (?k, 2)"
    by (simp add: example_defs)
  note kwargs_reach_the_workflow_only [OF r1 r2, THEN conjunct2, THEN conjunct2, THEN conjunct1]
  with e1 e2 show ?thesis
    by (intro conjI)
qed

subsection \<open>The parameters of the fragmentation node\<close>

text \<open>
  C8. In both branches the workflow returned has one fragmentation node, and it was
  constructed with \<^verbatim>\<open>depth\<close>, \<^verbatim>\<open>open_rings\<close> and \<^verbatim>\<open>check_db\<close> as the caller
  gave them.
\<close>

theorem fragment_node_gets_depth_open_rings_check_db:
  assumes "get_fragmentation_wf lib a h = (h', Inr w)"
  shows "\<exists>fw. filter is_FragmentFW (fws w) = [fw] \<and>
              passed fw ''depth'' = Some (depth a) \<and>
              passed fw ''open_rings'' = Some (open_rings a) \<and>
              passed fw ''check_db'' = Some (check_db a)"
proof -
  from get_fragmentation_wf_Inr [OF assms] obtain q fs where
    fs: "build_fws lib a q h' = Inr fs" and w: "w = Workflow fs (wfname a) (kwargs a)"
    by blast
  show ?thesis
  proof (cases "do_optimization a")
    case True
    show ?thesis
      unfolding w build_fws_optimize [OF True fs] by (simp add: passed_def)
  next
    case False
    show ?thesis
      unfolding w build_fws_fragment_only [OF False fs] by (simp add: passed_def)
  qed
qed

theorem fragment_node_gets_depth_open_rings_check_db_witness:
  "map_sum id (map (\<lambda>fw. (passed fw ''depth'', passed fw ''open_rings'', passed fw ''check_db''))
                 \<circ> filter is_FragmentFW \<circ> fws)
     (snd (get_fragmentation_wf accepting
            ((defaults water (PyInt 2))\<lparr>open_rings := PyBool False, check_db := PyBool False\<rparr>)
            [])) =
     Inr [(Some (PyInt 2), Some (PyBool False), Some (PyBool False))] \<and>
   map_sum id (map (\<lambda>fw. (passed fw ''depth'', passed fw ''open_rings'', passed fw ''check_db''))
                 \<circ> filter is_FragmentFW \<circ> fws)
     (snd (get_fragmentation_wf accepting
            ((defaults water (PyInt 0))\<lparr>do_optimization := False\<rparr>) [])) =
     Inr [(Some (PyInt 0), Some (PyBool True), Some (PyBool True))]"
proof -
  let ?a1 = "(defaults water (PyInt 2))\<lparr>open_rings := PyBool False, check_db := PyBool False\<rparr>"
  let ?a2 = "(defaults water (PyInt 0))\<lparr>do_optimization := False\<rparr>"
  let ?r1 = "get_fragmentation_wf accepting ?a1 []"
  let ?r2 = "get_fragmentation_wf accepting ?a2 []"
  have r1: "?r1 = (fst ?r1, Inr (projr (snd ?r1)))"
    by (simp add: example_defs)
  have r2: "?r2 = (fst ?r2, Inr (projr (snd ?r2)))"
    by (simp add: example_defs)
  show ?thesis
    using fragment_node_gets_depth_open_rings_check_db [OF r1]
          fragment_node_gets_depth_open_rings_check_db [OF r2]
    by (simp add: example_defs)
qed

subsection \<open>Which firework gets the molecule and the database check\<close>

text \<open>
  C9. With \<^verbatim>\<open>do_optimization\<close> true the molecule is passed to the optimization firework
  and not to the fragmentation firework; with \<^verbatim>\<open>do_optimization\<close> false it is passed to
  the fragmentation firework. \<^verbatim>\<open>check_db\<close> is passed to every fragmentation firework
  and to no optimization firework.
\<close>

theorem molecule_and_check_db_routing:
  assumes "get_fragmentation_wf lib a h = (h', Inr w)"
  shows "(if do_optimization a
          then \<exists>fw1 fw2. fws w = [fw1, fw2] \<and>
                 \<not> is_FragmentFW fw1 \<and> is_FragmentFW fw2 \<and>
                 passed fw1 ''molecule'' = Some (PyMolecule (molecule a)) \<and>
                 passed fw2 ''molecule'' = None
          else \<exists>fw. fws w = [fw] \<and> is_FragmentFW fw \<and>
                 passed fw ''molecule'' = Some (PyMolecule (molecule a))) \<and>
         (\<forall>fw \<in> set (fws w).
            passed fw ''check_db'' = (if is_FragmentFW fw then Some (check_db a) else None))"
proof -
  from get_fragmentation_wf_Inr [OF assms] obtain q fs where
    fs: "build_fws lib a q h' = Inr fs" and w: "w = Workflow fs (wfname a) (kwargs a)"
    by blast
  show ?thesis
  proof (cases "do_optimization a")
    case True
    then show ?thesis
      unfolding w build_fws_optimize [OF True fs] by (simp add: passed_def)
  next
    case False
    then show ?thesis
      unfolding w build_fws_fragment_only [OF False fs] by (simp add: passed_def)
  qed
qed

theorem molecule_and_check_db_routing_witness:
  "map_sum id (map (\<lambda>fw. (is_FragmentFW fw, passed fw ''molecule'', passed fw ''check_db''))
                 \<circ> fws)
     (snd (get_fragmentation_wf accepting (defaults water (PyInt 1)) [])) =
     Inr [(False, Some (PyMolecule water), None), (True, None, Some (PyBool True))] \<and>
   map_sum id (map (\<lambda>fw. (is_FragmentFW fw, passed fw ''molecule'', passed fw ''check_db''))
                 \<circ> fws)
     (snd (get_fragmentation_wf accepting
            ((defaults water (PyInt 1))\<lparr>do_optimization := False\<rparr>) [])) =
     Inr [(True, Some (PyMolecule water), Some (PyBool True))]"
proof -
  let ?a1 = "defaults water (PyInt 1)"
  let ?a2 = "(defaults water (PyInt 1))\<lparr>do_optimization := False\<rparr>"
  let ?r1 = "get_fragmentation_wf accepting ?a1 []"
  let ?r2 = "get_fragmentation_wf accepting ?a2 []"
  have r1: "?r1 = (fst ?r1, Inr (projr (snd ?r1)))"
    by (simp add: example_defs)
  have r2: "?r2 = (fst ?r2, Inr (projr (snd ?r2)))"
    by (simp add: example_defs)
  show ?thesis
    using molecule_and_check_db_routing [OF r1] molecule_and_check_db_routing [OF r2]
    by (simp add: example_defs)
qed

subsection \<open>Omitted input parameters\<close>

text \<open>
  C10. When \<^verbatim>\<open>qchem_input_params\<close> is omitted or \<^verbatim>\<open>None\<close>, every firework of the
  workflow returned gets a dictionary, not \<^verbatim>\<open>None\<close>: an empty one when
  \<^verbatim>\<open>pcm_dielectric\<close> is \<^verbatim>\<open>None\<close>, and one whose only key is \<^verbatim>\<open>"pcm_dielectric"\<close>,
  with the given value, otherwise.
\<close>

theorem omitted_params_become_a_dictionary:
  assumes "qchem_input_params a = None" and "get_fragmentation_wf lib a h = (h', Inr w)"
  shows "fws w \<noteq> [] \<and>
    (\<forall>fw \<in> set (fws w).
       passed fw ''qchem_input_params'' \<noteq> Some PyNone \<and>
       (\<exists>q. passed fw ''qchem_input_params'' = Some (PyDict q) \<and>
            h' ! q = (if pcm_dielectric a = PyNone then []
                      else [(''pcm_dielectric'', pcm_dielectric a)])))"
proof -
  from get_fragmentation_wf_Inr [OF assms(2)] obtain q fs where
    n: "normalise_params a h = (q, h')" and
    fs: "build_fws lib a q h' = Inr fs" and
    w: "w = Workflow fs (wfname a) (kwargs a)"
    by blast
  have v: "valid_ref a h"
    by (simp add: valid_ref_def assms(1))
  have g: "given_params a h = []"
    by (simp add: given_params_def assms(1))
  from normalise_params_result [OF v n]
  have q: "h' ! q = (if pcm_dielectric a = PyNone then []
                     else [(''pcm_dielectric'', pcm_dielectric a)])"
    by (simp add: g)
  have "passed fw ''qchem_input_params'' \<noteq> Some PyNone \<and>
        (\<exists>q. passed fw ''qchem_input_params'' = Some (PyDict q) \<and>
             h' ! q = (if pcm_dielectric a = PyNone then []
                       else [(''pcm_dielectric'', pcm_dielectric a)]))"
    if "fw \<in> set fs" for fw
  proof -
    from passed_through_both_branches [OF fs that]
    have p: "passed fw ''qchem_input_params'' = Some (PyDict q)"
      by simp
    with q show ?thesis
      by simp
  qed
  moreover have "fs \<noteq> []"
    by (rule build_fws_not_empty [OF fs])
  ultimately show ?thesis
    by (simp add: w)
qed

theorem omitted_params_become_a_dictionary_witness:
  "qchem_input_params (defaults water (PyInt 1)) = None \<and>
   qchem_input_params (solvated None) = None \<and>
   map_sum id (map (\<lambda>fw. passed fw ''qchem_input_params'') \<circ> fws)
     (snd (get_fragmentation_wf accepting (defaults water (PyInt 1)) [])) =
     Inr [Some (PyDict 0), Some (PyDict 0)] \<and>
   fst (get_fragmentation_wf accepting (defaults water (PyInt 1)) []) ! 0 = [] \<and>
   map_sum id (map (\<lambda>fw. passed fw ''qchem_input_params'') \<circ> fws)
     (snd (get_fragmentation_wf accepting (solvated None) [])) =
     Inr [Some (PyDict 0), Some (PyDict 0)] \<and>
   fst (get_fragmentation_wf accepting (solvated None) []) ! 0 =
     [(''pcm_dielectric'', PyFloat 78.4)]"
proof -
  let ?a1 = "defaults water (PyInt 1)"
  let ?a2 = "solvated None"
  let ?r1 = "get_fragmentation_wf accepting ?a1 []"
  let ?r2 = "get_fragmentation_wf accepting ?a2 []"
  have n1: "qchem_input_params ?a1 = None"
    by (simp add: defaults_def)
  have n2: "qchem_input_params ?a2 = None"
    by (simp add: solvated_def)
  have r1: "?r1 = (fst ?r1, Inr (projr (snd ?r1)))"
    by (simp add: example_defs)
  have r2: "?r2 = (fst ?r2, Inr (projr (snd ?r2)))"
    by (simp add: example_defs)
  show ?thesis
    using n1 n2 omitted_params_become_a_dictionary [OF n1 r1]
          omitted_params_become_a_dictionary [OF n2 r2]
    by (simp add: example_defs)
qed

end
